theory Spec2Isabelle
  imports Complex_Main "HOL-Library.Monad_Syntax" "HOL-Library.State_Monad" "HOL-Library.Sublist"
begin

section \<open>The host scene graph as seen by the builder\<close>

text \<open>
  \<^verbatim>\<open>UVBasedPoseReader.py\<close> is a straight-line sequence of calls into the host
  (\<^verbatim>\<open>pymel.core as pm\<close> and \<^verbatim>\<open>maya.cmds\<close>). The scene is modelled by the trace of the
  host calls that were accepted, in order; nodes, connections and attribute
  assignments are views of that trace. A node handle (a PyNode in the source) is the
  index of the node in creation order.
\<close>

type_synonym node = nat

datatype plug = Plug node string

datatype error = HostError string | AttributeError

text \<open>
  The keyword arguments of \<^verbatim>\<open>addAttr\<close> under their long names: \<^verbatim>\<open>at\<close>, \<^verbatim>\<open>min\<close>,
  \<^verbatim>\<open>max\<close>, \<^verbatim>\<open>dv\<close> and \<^verbatim>\<open>k\<close>. An argument that is not passed is \<open>None\<close>.
\<close>

record attr_spec =
  attributeType :: "string option"
  minValue :: "real option"
  maxValue :: "real option"
  defaultValue :: "real option"
  keyable :: bool

datatype call =
    CreateNode string "string option" "node option"
  | AddAttr node string attr_spec
  | Sphere bool string
  | Parent node node
  | ConnectAttr plug plug
  | SetAttr node string "real list"
  | CmdsSetAttr node string "real list" string
  | ShadingNode string bool string
  | Sets bool bool bool string
  | GetShape node
  | DefaultNavigation node plug bool

record node_info =
  ntype :: string
  nname :: "string option"
  nparent :: "node option"

text \<open>
  The nodes a call adds to the scene. \<^verbatim>\<open>pm.sphere\<close> makes a transform and its
  NURBS shape; \<^verbatim>\<open>pm.sets(renderable=True, ...)\<close> makes a renderable set;
  \<^verbatim>\<open>pm.parent\<close> moves a node under a new parent.
\<close>

fun nodes_after :: "node_info list \<Rightarrow> call \<Rightarrow> node_info list" where
  "nodes_after ns (CreateNode t n p) = ns @ [\<lparr>ntype = t, nname = n, nparent = p\<rparr>]"
| "nodes_after ns (Sphere ch n) =
     ns @ [\<lparr>ntype = ''transform'', nname = Some n, nparent = None\<rparr>,
           \<lparr>ntype = ''nurbsSurface'', nname = None, nparent = Some (length ns)\<rparr>]"
| "nodes_after ns (Parent c p) =
     (if c < length ns then ns[c := (ns ! c)\<lparr>nparent := Some p\<rparr>] else ns)"
| "nodes_after ns (ShadingNode t a n) = ns @ [\<lparr>ntype = t, nname = Some n, nparent = None\<rparr>]"
| "nodes_after ns (Sets r nss e n) =
     ns @ [\<lparr>ntype = ''renderSet'', nname = Some n, nparent = None\<rparr>]"
| "nodes_after ns (AddAttr v va vb) = ns"
| "nodes_after ns (ConnectAttr v va) = ns"
| "nodes_after ns (SetAttr v va vb) = ns"
| "nodes_after ns (CmdsSetAttr v va vb vc) = ns"
| "nodes_after ns (GetShape v) = ns"
| "nodes_after ns (DefaultNavigation v va vb) = ns"

definition scene_nodes :: "call list \<Rightarrow> node_info list" where
  "scene_nodes tr = foldl nodes_after [] tr"

definition children :: "node_info list \<Rightarrow> node \<Rightarrow> node list" where
  "children ns n = filter (\<lambda>i. nparent (ns ! i) = Some n) [0..<length ns]"

fun connection_of :: "call \<Rightarrow> (plug \<times> plug) list" where
  "connection_of (ConnectAttr a b) = [(a, b)]"
| "connection_of (CreateNode v va vb) = []"
| "connection_of (AddAttr v va vb) = []"
| "connection_of (Sphere v va) = []"
| "connection_of (Parent v va) = []"
| "connection_of (SetAttr v va vb) = []"
| "connection_of (CmdsSetAttr v va vb vc) = []"
| "connection_of (ShadingNode v va vb) = []"
| "connection_of (Sets v va vb vc) = []"
| "connection_of (GetShape v) = []"
| "connection_of (DefaultNavigation v va vb) = []"

definition connections :: "call list \<Rightarrow> (plug \<times> plug) list" where
  "connections tr = concat (map connection_of tr)"

definition driven :: "call list \<Rightarrow> plug \<Rightarrow> bool" where
  "driven tr p = (p \<in> set (map snd (connections tr)))"

fun added_attr :: "node \<Rightarrow> call \<Rightarrow> (string \<times> attr_spec) list" where
  "added_attr n (AddAttr m a sp) = (if m = n then [(a, sp)] else [])"
| "added_attr n (CreateNode v va vb) = []"
| "added_attr n (Sphere v va) = []"
| "added_attr n (Parent v va) = []"
| "added_attr n (ConnectAttr v va) = []"
| "added_attr n (SetAttr v va vb) = []"
| "added_attr n (CmdsSetAttr v va vb vc) = []"
| "added_attr n (ShadingNode v va vb) = []"
| "added_attr n (Sets v va vb vc) = []"
| "added_attr n (GetShape v) = []"
| "added_attr n (DefaultNavigation v va vb) = []"

definition added_attrs :: "call list \<Rightarrow> node \<Rightarrow> (string \<times> attr_spec) list" where
  "added_attrs tr n = concat (map (added_attr n) tr)"

text \<open>
  Attribute assignments, with the path they went through: the node's own
  \<^verbatim>\<open>setAttr\<close> method of pymel, or \<^verbatim>\<open>maya.cmds.setAttr\<close>.
\<close>

datatype set_path = ViaPymel | ViaCmds

fun assignment_of :: "call \<Rightarrow> (plug \<times> real list \<times> set_path) list" where
  "assignment_of (SetAttr n a vs) = [(Plug n a, vs, ViaPymel)]"
| "assignment_of (CmdsSetAttr n a vs ty) = [(Plug n a, vs, ViaCmds)]"
| "assignment_of (CreateNode v va vb) = []"
| "assignment_of (AddAttr v va vb) = []"
| "assignment_of (Sphere v va) = []"
| "assignment_of (Parent v va) = []"
| "assignment_of (ConnectAttr v va) = []"
| "assignment_of (ShadingNode v va vb) = []"
| "assignment_of (Sets v va vb vc) = []"
| "assignment_of (GetShape v) = []"
| "assignment_of (DefaultNavigation v va vb) = []"

definition assignments :: "call list \<Rightarrow> (plug \<times> real list \<times> set_path) list" where
  "assignments tr = concat (map assignment_of tr)"

definition assignments_on :: "call list \<Rightarrow> node \<Rightarrow> (string \<times> real list \<times> set_path) list" where
  "assignments_on tr n =
     concat (map (\<lambda>(p, vs, w). case p of Plug m a \<Rightarrow> if m = n then [(a, vs, w)] else [])
                 (assignments tr))"

section \<open>Host calls that may raise\<close>

text \<open>
  The host decides, from the calls accepted so far and the call being made, whether the
  call raises. An exception leaves the scene as it is and skips everything after it:
  the source has no \<^verbatim>\<open>try\<close>, so the first exception ends the build.
\<close>

record scene =
  trace :: "call list"
  raised :: "error option"
  host_fails :: "call list \<Rightarrow> call \<Rightarrow> error option"

definition host_call :: "call \<Rightarrow> (scene \<Rightarrow> 'a) \<Rightarrow> (scene, 'a) state" where
  "host_call c ret = State (\<lambda>s.
     case raised s of
       Some e \<Rightarrow> (ret s, s)
     | None \<Rightarrow>
        (case host_fails s (trace s) c of
           Some e \<Rightarrow> (ret s, s\<lparr>raised := Some e\<rparr>)
         | None \<Rightarrow> (ret s, s\<lparr>trace := trace s @ [c]\<rparr>)))"

definition py_raise :: "error \<Rightarrow> 'a \<Rightarrow> (scene, 'a) state" where
  "py_raise e a = State (\<lambda>s.
     case raised s of Some e' \<Rightarrow> (a, s) | None \<Rightarrow> (a, s\<lparr>raised := Some e\<rparr>))"

definition new_node :: "scene \<Rightarrow> node" where
  "new_node s = length (scene_nodes (trace s))"

definition no_value :: "scene \<Rightarrow> unit" where
  "no_value s = ()"

definition pm_createNode :: "string \<Rightarrow> string option \<Rightarrow> node option \<Rightarrow> (scene, node) state" where
  "pm_createNode t n p = host_call (CreateNode t n p) new_node"

definition addAttr :: "node \<Rightarrow> string \<Rightarrow> attr_spec \<Rightarrow> (scene, unit) state" where
  "addAttr n a sp = host_call (AddAttr n a sp) no_value"

definition pm_sphere :: "bool \<Rightarrow> string \<Rightarrow> (scene, node) state" where
  "pm_sphere ch n = host_call (Sphere ch n) new_node"

definition pm_parent :: "node \<Rightarrow> node \<Rightarrow> (scene, unit) state" where
  "pm_parent c p = host_call (Parent c p) no_value"

definition connect :: "plug \<Rightarrow> plug \<Rightarrow> (scene, unit) state" where
  "connect src dst = host_call (ConnectAttr src dst) no_value"

definition setAttr :: "node \<Rightarrow> string \<Rightarrow> real list \<Rightarrow> (scene, unit) state" where
  "setAttr n a vs = host_call (SetAttr n a vs) no_value"

definition cmds_setAttr :: "node \<Rightarrow> string \<Rightarrow> real list \<Rightarrow> string \<Rightarrow> (scene, unit) state" where
  "cmds_setAttr n a vs ty = host_call (CmdsSetAttr n a vs ty) no_value"

definition pm_shadingNode :: "string \<Rightarrow> bool \<Rightarrow> string \<Rightarrow> (scene, node) state" where
  "pm_shadingNode t as_shader n = host_call (ShadingNode t as_shader n) new_node"

definition pm_sets :: "bool \<Rightarrow> bool \<Rightarrow> bool \<Rightarrow> string \<Rightarrow> (scene, node) state" where
  "pm_sets renderable no_surface_shader empty_flag n =
     host_call (Sets renderable no_surface_shader empty_flag n) new_node"

definition getShape :: "node \<Rightarrow> (scene, node option) state" where
  "getShape n = host_call (GetShape n)
     (\<lambda>s. case children (scene_nodes (trace s)) n of [] \<Rightarrow> None | i # _ \<Rightarrow> Some i)"

definition pm_defaultNavigation :: "node \<Rightarrow> plug \<Rightarrow> bool \<Rightarrow> (scene, unit) state" where
  "pm_defaultNavigation src dst connect_to_existing =
     host_call (DefaultNavigation src dst connect_to_existing) no_value"

text \<open>
  Reading an attribute of \<^verbatim>\<open>self\<close> that still holds \<^verbatim>\<open>None\<close> and using it as a
  node raises \<^verbatim>\<open>AttributeError\<close> in Python.
\<close>

definition deref :: "node option \<Rightarrow> (scene, node) state" where
  "deref v = (case v of Some n \<Rightarrow> State_Monad.return n | None \<Rightarrow> py_raise AttributeError 0)"

section \<open>The builder\<close>

record reader =
  name :: string
  cone_angle :: real
  with_visualizer :: bool
  info_node :: "node option"
  nurbs_sphere :: "node option"
  point_on_surface :: "node option"
  ramp :: "node option"
  driver :: "node option"
  pose :: "node option"
  sphere :: "node option"

definition basic_setup :: "reader \<Rightarrow> (scene, reader) state" where
  "basic_setup self = do {
     info \<leftarrow> pm_createNode ''transform'' (Some (''C_'' @ name self @ ''_GRP'')) None;
     let self = self\<lparr>info_node := Some info\<rparr>;
     addAttr info ''outValue''
       \<lparr>attributeType = None, minValue = Some (- 1), maxValue = Some 1, defaultValue = None, keyable = True\<rparr>;
     addAttr info ''coneAngle''
       \<lparr>attributeType = None, minValue = Some 0, maxValue = Some 180,
        defaultValue = Some (cone_angle self), keyable = True\<rparr>;
     addAttr info ''visualize''
       \<lparr>attributeType = Some ''bool'', minValue = None, maxValue = None, defaultValue = Some 1, keyable = True\<rparr>;

     sph \<leftarrow> pm_sphere False (''C_'' @ name self @ ''_NRB'');
     let self = self\<lparr>sphere := Some sph\<rparr>;
     pm_parent sph info;
     pos \<leftarrow> pm_createNode ''closestPointOnSurface'' None None;
     let self = self\<lparr>point_on_surface := Some pos\<rparr>;
     mdl \<leftarrow> pm_createNode ''multDoubleLinear'' None None;
     rmp \<leftarrow> pm_createNode ''ramp'' None None;
     let self = self\<lparr>ramp := Some rmp\<rparr>;

     connect (Plug sph ''ws'') (Plug pos ''inputSurface'');
     setAttr mdl ''input2'' [0.25];
     connect (Plug pos ''parameterU'') (Plug mdl ''input1'');
     connect (Plug mdl ''output'') (Plug rmp ''uCoord'');
     setAttr rmp ''type'' [1];
     setAttr rmp ''colorEntryList[0].color'' [0, 0, 0];
     setAttr rmp ''colorEntryList[1].position'' [1];
     setAttr rmp ''colorEntryList[1].color'' [1, 1, 1];
     setAttr rmp ''colorEntryList[2].position'' [0];
     cmds_setAttr rmp ''colorEntryList[2].color'' [- 1, - 1, - 1] ''double3'';
     setAttr rmp ''colorEntryList[3].color'' [0, 0, 0];
     connect (Plug rmp ''outColorR'') (Plug info ''outValue'');

     rmv \<leftarrow> pm_createNode ''remapValue'' (Some ''coneAngle'') None;
     setAttr rmv ''inputMin'' [0];
     setAttr rmv ''inputMax'' [180];
     setAttr rmv ''outputMin'' [1];
     setAttr rmv ''outputMax'' [0.5];
     connect (Plug info ''coneAngle'') (Plug rmv ''inputValue'');
     connect (Plug rmv ''outValue'') (Plug rmp ''colorEntryList[0].position'');
     rvs \<leftarrow> pm_createNode ''reverse'' (Some ''coneAngle'') None;
     connect (Plug rmv ''outValue'') (Plug rvs ''inputX'');
     connect (Plug rvs ''outputX'') (Plug rmp ''colorEntryList[3].position'');
     State_Monad.return self
   }"

definition target_setup :: "reader \<Rightarrow> (scene, reader) state" where
  "target_setup self = do {
     drv \<leftarrow> pm_createNode ''transform'' (Some (''C_'' @ name self @ ''Driver_LOC''))
              (info_node self);
     let self = self\<lparr>driver := Some drv\<rparr>;
     pm_createNode ''locator'' (Some (''C_'' @ name self @ ''Driver_LOCShape'')) (Some drv);
     pse \<leftarrow> pm_createNode ''transform'' (Some (''C_'' @ name self @ ''Pose_LOC'')) (Some drv);
     let self = self\<lparr>pose := Some pse\<rparr>;
     pm_createNode ''locator'' (Some (''C_'' @ name self @ ''Pose_LOCShape'')) (Some pse);
     setAttr pse ''tx'' [1];
     dcm \<leftarrow> pm_createNode ''decomposeMatrix'' None None;
     connect (Plug pse ''wm'') (Plug dcm ''inputMatrix'');
     pos \<leftarrow> deref (point_on_surface self);
     connect (Plug dcm ''outputTranslate'') (Plug pos ''inPosition'');
     State_Monad.return self
   }"

definition visualizer_setup :: "reader \<Rightarrow> (scene, reader) state" where
  "visualizer_setup self = do {
     visualize_sdr \<leftarrow> pm_shadingNode ''surfaceShader'' True ''visualize'';
     sets \<leftarrow> pm_sets True True True ''visualize'';
     connect (Plug visualize_sdr ''outColor'') (Plug sets ''surfaceShader'');
     vis_ramp \<leftarrow> pm_createNode ''ramp'' (Some ''visualize'') None;
     setAttr vis_ramp ''type'' [1];
     setAttr vis_ramp ''colorEntryList[0].color'' [0, 0, 0];
     setAttr vis_ramp ''colorEntryList[1].position'' [1];
     setAttr vis_ramp ''colorEntryList[1].color'' [0, 0, 0];
     setAttr vis_ramp ''colorEntryList[2].position'' [0];
     cmds_setAttr vis_ramp ''colorEntryList[2].color'' [0, 0, 0] ''double3'';
     setAttr vis_ramp ''colorEntryList[3].color'' [0, 0, 0];
     rmp \<leftarrow> deref (ramp self);
     connect (Plug rmp ''outColorR'') (Plug vis_ramp ''colorEntryList[1].color.colorG'');
     rmv \<leftarrow> pm_createNode ''remapValue'' (Some ''visualize'') None;
     setAttr rmv ''inputMin'' [- 1];
     setAttr rmv ''inputMax'' [0];
     setAttr rmv ''outputMin'' [1];
     setAttr rmv ''outputMax'' [0];
     rmp \<leftarrow> deref (ramp self);
     connect (Plug rmp ''outColorR'') (Plug rmv ''inputValue'');
     connect (Plug rmv ''outValue'') (Plug vis_ramp ''colorEntryList[2].color.colorR'');

     rmp \<leftarrow> deref (ramp self);
     connect (Plug rmp ''colorEntryList[0].position'')
             (Plug vis_ramp ''colorEntryList[0].position'');
     rmp \<leftarrow> deref (ramp self);
     connect (Plug rmp ''colorEntryList[3].position'')
             (Plug vis_ramp ''colorEntryList[3].position'');

     connect (Plug vis_ramp ''outColor'') (Plug visualize_sdr ''outColor'');
     sph \<leftarrow> deref (sphere self);
     shp \<leftarrow> getShape sph;
     shp \<leftarrow> deref shp;
     pm_defaultNavigation visualize_sdr (Plug shp ''instObjGroups[0]'') True;
     State_Monad.return self
   }"

definition reader_setup :: "reader \<Rightarrow> (scene, reader) state" where
  "reader_setup self = do {
     self \<leftarrow> basic_setup self;
     self \<leftarrow> target_setup self;
     if with_visualizer self then visualizer_setup self else State_Monad.return self
   }"

text \<open>
  \<^verbatim>\<open>__init__\<close>: the three arguments have defaults; the node attributes start as
  \<^verbatim>\<open>None\<close> (\<^verbatim>\<open>self.sphere\<close> is not assigned before \<^verbatim>\<open>_basic_setup\<close>, which is
  \<^verbatim>\<open>None\<close> here); the last statement runs the setup.
\<close>

definition UVBasedPoseReader ::
    "string option \<Rightarrow> real option \<Rightarrow> bool option \<Rightarrow> (scene, reader) state" where
  "UVBasedPoseReader nm ca vis =
     reader_setup
       \<lparr>name = (case nm of None \<Rightarrow> ''UVBasedPoseReader'' | Some n \<Rightarrow> n),
        cone_angle = (case ca of None \<Rightarrow> 180 | Some c \<Rightarrow> c),
        with_visualizer = (case vis of None \<Rightarrow> True | Some v \<Rightarrow> v),
        info_node = None, nurbs_sphere = None, point_on_surface = None,
        ramp = None, driver = None, pose = None, sphere = None\<rparr>"

text \<open>The last line of the module: \<^verbatim>\<open>UVBasedPoseReader()\<close>, run when the module is imported.\<close>

definition module_import :: "(scene, reader) state" where
  "module_import = UVBasedPoseReader None None None"

text \<open>An empty scene in a host that accepts every call.\<close>

definition accepting :: "call list \<Rightarrow> call \<Rightarrow> error option" where
  "accepting tr c = None"

definition empty_scene :: "(call list \<Rightarrow> call \<Rightarrow> error option) \<Rightarrow> scene" where
  "empty_scene h = \<lparr>trace = [], raised = None, host_fails = h\<rparr>"

definition build :: "string \<Rightarrow> real \<Rightarrow> bool \<Rightarrow> reader \<times> scene" where
  "build nm ca vis =
     run_state (UVBasedPoseReader (Some nm) (Some ca) (Some vis)) (empty_scene accepting)"

definition built :: "string \<Rightarrow> real \<Rightarrow> bool \<Rightarrow> call list" where
  "built nm ca vis = trace (snd (build nm ca vis))"

text \<open>A build in a host \<open>h\<close> that may reject calls.\<close>

definition build_in ::
    "(call list \<Rightarrow> call \<Rightarrow> error option) \<Rightarrow> string \<Rightarrow> real \<Rightarrow> bool \<Rightarrow> reader \<times> scene" where
  "build_in h nm ca vis =
     run_state (UVBasedPoseReader (Some nm) (Some ca) (Some vis)) (empty_scene h)"

text \<open>
  The calls of the base and target phases and of the visualizer phase, written out
  with the node handles the host returns: 0 the info node, 1 the sphere and 2 its shape,
  3 the closest-point sampler, 4 the multiplier, 5 the core ramp, 6 the cone-angle remap,
  7 the reverse, 8 and 9 the driver and its locator shape, 10 and 11 the pose and its
  locator shape, 12 the matrix decomposition, 13 the surface shader, 14 the render set,
  15 the visualizer ramp, 16 the visualizer remap. That a build in an accepting host
  makes exactly these calls is proved below (\<open>build_False\<close>, \<open>build_True\<close>).
\<close>

definition base_calls :: "string \<Rightarrow> real \<Rightarrow> call list" where
  "base_calls nm ca =
     [CreateNode ''transform'' (Some (''C_'' @ nm @ ''_GRP'')) None,
      AddAttr 0 ''outValue''
        \<lparr>attributeType = None, minValue = Some (- 1), maxValue = Some 1,
         defaultValue = None, keyable = True\<rparr>,
      AddAttr 0 ''coneAngle''
        \<lparr>attributeType = None, minValue = Some 0, maxValue = Some 180,
         defaultValue = Some ca, keyable = True\<rparr>,
      AddAttr 0 ''visualize''
        \<lparr>attributeType = Some ''bool'', minValue = None, maxValue = None,
         defaultValue = Some 1, keyable = True\<rparr>,
      Sphere False (''C_'' @ nm @ ''_NRB''),
      Parent 1 0,
      CreateNode ''closestPointOnSurface'' None None,
      CreateNode ''multDoubleLinear'' None None,
      CreateNode ''ramp'' None None,
      ConnectAttr (Plug 1 ''ws'') (Plug 3 ''inputSurface''),
      SetAttr 4 ''input2'' [1 / 4],
      ConnectAttr (Plug 3 ''parameterU'') (Plug 4 ''input1''),
      ConnectAttr (Plug 4 ''output'') (Plug 5 ''uCoord''),
      SetAttr 5 ''type'' [1],
      SetAttr 5 ''colorEntryList[0].color'' [0, 0, 0],
      SetAttr 5 ''colorEntryList[1].position'' [1],
      SetAttr 5 ''colorEntryList[1].color'' [1, 1, 1],
      SetAttr 5 ''colorEntryList[2].position'' [0],
      CmdsSetAttr 5 ''colorEntryList[2].color'' [- 1, - 1, - 1] ''double3'',
      SetAttr 5 ''colorEntryList[3].color'' [0, 0, 0],
      ConnectAttr (Plug 5 ''outColorR'') (Plug 0 ''outValue''),
      CreateNode ''remapValue'' (Some ''coneAngle'') None,
      SetAttr 6 ''inputMin'' [0],
      SetAttr 6 ''inputMax'' [180],
      SetAttr 6 ''outputMin'' [1],
      SetAttr 6 ''outputMax'' [1 / 2],
      ConnectAttr (Plug 0 ''coneAngle'') (Plug 6 ''inputValue''),
      ConnectAttr (Plug 6 ''outValue'') (Plug 5 ''colorEntryList[0].position''),
      CreateNode ''reverse'' (Some ''coneAngle'') None,
      ConnectAttr (Plug 6 ''outValue'') (Plug 7 ''inputX''),
      ConnectAttr (Plug 7 ''outputX'') (Plug 5 ''colorEntryList[3].position''),
      CreateNode ''transform'' (Some (''C_'' @ nm @ ''Driver_LOC'')) (Some 0),
      CreateNode ''locator'' (Some (''C_'' @ nm @ ''Driver_LOCShape'')) (Some 8),
      CreateNode ''transform'' (Some (''C_'' @ nm @ ''Pose_LOC'')) (Some 8),
      CreateNode ''locator'' (Some (''C_'' @ nm @ ''Pose_LOCShape'')) (Some 10),
      SetAttr 10 ''tx'' [1],
      CreateNode ''decomposeMatrix'' None None,
      ConnectAttr (Plug 10 ''wm'') (Plug 12 ''inputMatrix''),
      ConnectAttr (Plug 12 ''outputTranslate'') (Plug 3 ''inPosition'')]"

definition visualizer_calls :: "call list" where
  "visualizer_calls =
     [ShadingNode ''surfaceShader'' True ''visualize'',
      Sets True True True ''visualize'',
      ConnectAttr (Plug 13 ''outColor'') (Plug 14 ''surfaceShader''),
      CreateNode ''ramp'' (Some ''visualize'') None,
      SetAttr 15 ''type'' [1],
      SetAttr 15 ''colorEntryList[0].color'' [0, 0, 0],
      SetAttr 15 ''colorEntryList[1].position'' [1],
      SetAttr 15 ''colorEntryList[1].color'' [0, 0, 0],
      SetAttr 15 ''colorEntryList[2].position'' [0],
      CmdsSetAttr 15 ''colorEntryList[2].color'' [0, 0, 0] ''double3'',
      SetAttr 15 ''colorEntryList[3].color'' [0, 0, 0],
      ConnectAttr (Plug 5 ''outColorR'') (Plug 15 ''colorEntryList[1].color.colorG''),
      CreateNode ''remapValue'' (Some ''visualize'') None,
      SetAttr 16 ''inputMin'' [- 1],
      SetAttr 16 ''inputMax'' [0],
      SetAttr 16 ''outputMin'' [1],
      SetAttr 16 ''outputMax'' [0],
      ConnectAttr (Plug 5 ''outColorR'') (Plug 16 ''inputValue''),
      ConnectAttr (Plug 16 ''outValue'') (Plug 15 ''colorEntryList[2].color.colorR''),
      ConnectAttr (Plug 5 ''colorEntryList[0].position'')
                  (Plug 15 ''colorEntryList[0].position''),
      ConnectAttr (Plug 5 ''colorEntryList[3].position'')
                  (Plug 15 ''colorEntryList[3].position''),
      ConnectAttr (Plug 15 ''outColor'') (Plug 13 ''outColor''),
      GetShape 1,
      DefaultNavigation 13 (Plug 2 ''instObjGroups[0]'') True]"

section \<open>Reading the built graph\<close>

definition node_type :: "call list \<Rightarrow> node \<Rightarrow> string option" where
  "node_type tr n =
     (let ns = scene_nodes tr in if n < length ns then Some (ntype (ns ! n)) else None)"

definition plug_node :: "plug \<Rightarrow> node" where
  "plug_node p = (case p of Plug n a \<Rightarrow> n)"

definition connections_into :: "call list \<Rightarrow> node \<Rightarrow> (plug \<times> plug) list" where
  "connections_into tr n = filter (\<lambda>c. plug_node (snd c) = n) (connections tr)"

definition sources_of :: "call list \<Rightarrow> plug \<Rightarrow> plug list" where
  "sources_of tr p = map fst (filter (\<lambda>c. snd c = p) (connections tr))"

definition assigned :: "call list \<Rightarrow> plug \<Rightarrow> (real list \<times> set_path) list" where
  "assigned tr p = map snd (filter (\<lambda>x. fst x = p) (assignments tr))"

text \<open>
  The attribute path of a field of the \<open>i\<close>-th ramp stop, as the source writes it
  (\<^verbatim>\<open>colorEntryList[2].color\<close>), for a one-digit index.
\<close>

definition stop_attr :: "nat \<Rightarrow> string \<Rightarrow> string" where
  "stop_attr i f = ''colorEntryList['' @ [''0123456789'' ! i] @ ''].'' @ f"

definition stop_colors :: "call list \<Rightarrow> node \<Rightarrow> nat \<Rightarrow> real list list" where
  "stop_colors tr n i = map fst (assigned tr (Plug n (stop_attr i ''color'')))"

definition negative :: "real list \<Rightarrow> bool" where
  "negative vs = list_ex (\<lambda>v. v < 0) vs"

text \<open>
  The spec's words for the ramp colours, \<^emph>\<open>colors alternating white/black\<close>: every
  colour is white or black, and neighbouring colours differ. The gradient is signed, so
  the predicate is read on the magnitude of a colour: the stop set to \<open>(-1, -1, -1)\<close> is
  white with a negative sign.
\<close>

definition magnitude :: "real list \<Rightarrow> real list" where
  "magnitude c = map abs c"

definition white :: "real list" where
  "white = [1, 1, 1]"

definition black :: "real list" where
  "black = [0, 0, 0]"

fun alternating_white_black :: "real list list \<Rightarrow> bool" where
  "alternating_white_black [] = True"
| "alternating_white_black [c] = (c = white \<or> c = black)"
| "alternating_white_black (c # d # cs) =
     ((c = white \<and> d = black \<or> c = black \<and> d = white) \<and> alternating_white_black (d # cs))"

section \<open>What the host computes on the built graph\<close>

text \<open>
  Modelled from the spec: the host's evaluation of the utility nodes, which is not
  part of the repository. A connected plug takes the value of its source; a remap node
  maps its input linearly from the input range to the output range; a reverse node
  outputs the complement \<open>1 - x\<close>; a multiplier outputs the product of its two inputs;
  an unconnected plug holds the last value set on it, else the default it was added
  with, else a value \<open>ext\<close> that the host computes by means outside this model (the
  sampler's \<^verbatim>\<open>parameterU\<close>). The fuel bounds the length of the chain followed.
\<close>

definition set_value :: "call list \<Rightarrow> plug \<Rightarrow> real option" where
  "set_value tr p =
     (case rev (assigned tr p) of
        [] \<Rightarrow> None
      | x # xs \<Rightarrow> (case fst x of [v] \<Rightarrow> Some v | _ \<Rightarrow> None))"

definition default_of :: "call list \<Rightarrow> plug \<Rightarrow> real option" where
  "default_of tr p =
     (case p of Plug n a \<Rightarrow>
        (case rev (filter (\<lambda>x. fst x = a) (added_attrs tr n)) of
           [] \<Rightarrow> None
         | x # xs \<Rightarrow> defaultValue (snd x)))"

definition remap :: "real \<Rightarrow> real \<Rightarrow> real \<Rightarrow> real \<Rightarrow> real \<Rightarrow> real option" where
  "remap x imin imax omin omax =
     (if imin = imax then None else Some (omin + (x - imin) / (imax - imin) * (omax - omin)))"

fun plug_value :: "nat \<Rightarrow> call list \<Rightarrow> (plug \<Rightarrow> real option) \<Rightarrow> plug \<Rightarrow> real option" where
  "plug_value 0 tr ext p = None"
| "plug_value (Suc fuel) tr ext (Plug n a) =
     (case rev (sources_of tr (Plug n a)) of
        q # qs \<Rightarrow> plug_value fuel tr ext q
      | [] \<Rightarrow>
         if node_type tr n = Some ''remapValue'' \<and> a = ''outValue'' then
           (case (plug_value fuel tr ext (Plug n ''inputValue''),
                  plug_value fuel tr ext (Plug n ''inputMin''),
                  plug_value fuel tr ext (Plug n ''inputMax''),
                  plug_value fuel tr ext (Plug n ''outputMin''),
                  plug_value fuel tr ext (Plug n ''outputMax'')) of
              (Some x, Some imin, Some imax, Some omin, Some omax) \<Rightarrow>
                 remap x imin imax omin omax
            | _ \<Rightarrow> None)
         else if node_type tr n = Some ''reverse'' \<and> a = ''outputX'' then
           (case plug_value fuel tr ext (Plug n ''inputX'') of
              Some x \<Rightarrow> Some (1 - x)
            | None \<Rightarrow> None)
         else if node_type tr n = Some ''multDoubleLinear'' \<and> a = ''output'' then
           (case (plug_value fuel tr ext (Plug n ''input1''),
                  plug_value fuel tr ext (Plug n ''input2'')) of
              (Some x, Some y) \<Rightarrow> Some (x * y)
            | _ \<Rightarrow> None)
         else
           (case set_value tr (Plug n a) of
              Some v \<Rightarrow> Some v
            | None \<Rightarrow>
               (case default_of tr (Plug n a) of
                  Some v \<Rightarrow> Some v
                | None \<Rightarrow> ext (Plug n a))))"

section \<open>Programs that never catch\<close>

text \<open>
  What it means for a program over the host to do no error handling, stated against
  the same program run in a host that accepts every call: once an exception is raised
  nothing more happens; accepted calls are never taken back; while nothing is raised the
  two runs agree; and an exception that ends the run is either one that Python raises in
  both runs, or the very error the host returned for the next call of the accepting run.
\<close>

definition in_accepting :: "scene \<Rightarrow> scene" where
  "in_accepting s = s\<lparr>host_fails := accepting\<rparr>"

definition never_catches :: "(scene, 'a) state \<Rightarrow> bool" where
  "never_catches m =
     (\<forall>s. (case run_state m s of (a, s') \<Rightarrow>
            host_fails s' = host_fails s \<and>
            prefix (trace s) (trace s') \<and>
            (raised s \<noteq> None \<longrightarrow> s' = s) \<and>
            (raised s = None \<longrightarrow>
               (case run_state m (in_accepting s) of (b, t) \<Rightarrow>
                  (case raised s' of
                     None \<Rightarrow> a = b \<and> t = in_accepting s'
                   | Some e \<Rightarrow>
                      (raised t = Some e \<and> trace t = trace s') \<or>
                      (\<exists>c. prefix (trace s' @ [c]) (trace t) \<and>
                           host_fails s (trace s') c = Some e))))))"

section \<open>The calls of a build\<close>

lemmas run_defs = build_def UVBasedPoseReader_def reader_setup_def basic_setup_def
  target_setup_def visualizer_setup_def pm_createNode_def addAttr_def pm_sphere_def
  pm_parent_def connect_def setAttr_def cmds_setAttr_def pm_shadingNode_def pm_sets_def
  getShape_def pm_defaultNavigation_def deref_def host_call_def py_raise_def new_node_def
  no_value_def empty_scene_def accepting_def scene_nodes_def children_def Let_def

lemma build_False:
  "build nm ca False =
     (\<lparr>name = nm, cone_angle = ca, with_visualizer = False, info_node = Some 0,
       nurbs_sphere = None, point_on_surface = Some 3, ramp = Some 5, driver = Some 8,
       pose = Some 10, sphere = Some 1\<rparr>,
      \<lparr>trace = base_calls nm ca, raised = None, host_fails = accepting\<rparr>)"
  by (simp add: run_defs base_calls_def)

lemma build_True:
  "build nm ca True =
     (\<lparr>name = nm, cone_angle = ca, with_visualizer = True, info_node = Some 0,
       nurbs_sphere = None, point_on_surface = Some 3, ramp = Some 5, driver = Some 8,
       pose = Some 10, sphere = Some 1\<rparr>,
      \<lparr>trace = base_calls nm ca @ visualizer_calls, raised = None, host_fails = accepting\<rparr>)"
  by (simp add: run_defs base_calls_def visualizer_calls_def)

lemma build_reader:
  "fst (build nm ca vis) =
     \<lparr>name = nm, cone_angle = ca, with_visualizer = vis, info_node = Some 0,
      nurbs_sphere = None, point_on_surface = Some 3, ramp = Some 5, driver = Some 8,
      pose = Some 10, sphere = Some 1\<rparr>"
  by (cases vis) (simp_all add: build_True build_False)

lemma build_raised: "raised (snd (build nm ca vis)) = None"
  by (cases vis) (simp_all add: build_True build_False)

lemma built_eq: "built nm ca vis = base_calls nm ca @ (if vis then visualizer_calls else [])"
  by (cases vis) (simp_all add: built_def build_True build_False)

subsection \<open>Nodes, connections, assignments and added attributes of the built scene\<close>

lemma connections_append: "connections (xs @ ys) = connections xs @ connections ys"
  by (simp add: connections_def)

lemma assignments_append: "assignments (xs @ ys) = assignments xs @ assignments ys"
  by (simp add: assignments_def)

lemma added_attrs_append: "added_attrs (xs @ ys) n = added_attrs xs n @ added_attrs ys n"
  by (simp add: added_attrs_def)

lemma connections_base:
  "connections (base_calls nm ca) =
     [(Plug 1 ''ws'', Plug 3 ''inputSurface''),
      (Plug 3 ''parameterU'', Plug 4 ''input1''),
      (Plug 4 ''output'', Plug 5 ''uCoord''),
      (Plug 5 ''outColorR'', Plug 0 ''outValue''),
      (Plug 0 ''coneAngle'', Plug 6 ''inputValue''),
      (Plug 6 ''outValue'', Plug 5 ''colorEntryList[0].position''),
      (Plug 6 ''outValue'', Plug 7 ''inputX''),
      (Plug 7 ''outputX'', Plug 5 ''colorEntryList[3].position''),
      (Plug 10 ''wm'', Plug 12 ''inputMatrix''),
      (Plug 12 ''outputTranslate'', Plug 3 ''inPosition'')]"
  by (simp add: connections_def base_calls_def)

lemma connections_visualizer:
  "connections visualizer_calls =
     [(Plug 13 ''outColor'', Plug 14 ''surfaceShader''),
      (Plug 5 ''outColorR'', Plug 15 ''colorEntryList[1].color.colorG''),
      (Plug 5 ''outColorR'', Plug 16 ''inputValue''),
      (Plug 16 ''outValue'', Plug 15 ''colorEntryList[2].color.colorR''),
      (Plug 5 ''colorEntryList[0].position'', Plug 15 ''colorEntryList[0].position''),
      (Plug 5 ''colorEntryList[3].position'', Plug 15 ''colorEntryList[3].position''),
      (Plug 15 ''outColor'', Plug 13 ''outColor'')]"
  by (simp add: connections_def visualizer_calls_def)

lemma assignments_base:
  "assignments (base_calls nm ca) =
     [(Plug 4 ''input2'', [1 / 4], ViaPymel),
      (Plug 5 ''type'', [1], ViaPymel),
      (Plug 5 ''colorEntryList[0].color'', [0, 0, 0], ViaPymel),
      (Plug 5 ''colorEntryList[1].position'', [1], ViaPymel),
      (Plug 5 ''colorEntryList[1].color'', [1, 1, 1], ViaPymel),
      (Plug 5 ''colorEntryList[2].position'', [0], ViaPymel),
      (Plug 5 ''colorEntryList[2].color'', [- 1, - 1, - 1], ViaCmds),
      (Plug 5 ''colorEntryList[3].color'', [0, 0, 0], ViaPymel),
      (Plug 6 ''inputMin'', [0], ViaPymel),
      (Plug 6 ''inputMax'', [180], ViaPymel),
      (Plug 6 ''outputMin'', [1], ViaPymel),
      (Plug 6 ''outputMax'', [1 / 2], ViaPymel),
      (Plug 10 ''tx'', [1], ViaPymel)]"
  by (simp add: assignments_def base_calls_def)

lemma assignments_visualizer:
  "assignments visualizer_calls =
     [(Plug 15 ''type'', [1], ViaPymel),
      (Plug 15 ''colorEntryList[0].color'', [0, 0, 0], ViaPymel),
      (Plug 15 ''colorEntryList[1].position'', [1], ViaPymel),
      (Plug 15 ''colorEntryList[1].color'', [0, 0, 0], ViaPymel),
      (Plug 15 ''colorEntryList[2].position'', [0], ViaPymel),
      (Plug 15 ''colorEntryList[2].color'', [0, 0, 0], ViaCmds),
      (Plug 15 ''colorEntryList[3].color'', [0, 0, 0], ViaPymel),
      (Plug 16 ''inputMin'', [- 1], ViaPymel),
      (Plug 16 ''inputMax'', [0], ViaPymel),
      (Plug 16 ''outputMin'', [1], ViaPymel),
      (Plug 16 ''outputMax'', [0], ViaPymel)]"
  by (simp add: assignments_def visualizer_calls_def)

lemma added_attrs_base:
  "added_attrs (base_calls nm ca) n =
     (if n = 0 then
        [(''outValue'',
          \<lparr>attributeType = None, minValue = Some (- 1), maxValue = Some 1,
           defaultValue = None, keyable = True\<rparr>),
         (''coneAngle'',
          \<lparr>attributeType = None, minValue = Some 0, maxValue = Some 180,
           defaultValue = Some ca, keyable = True\<rparr>),
         (''visualize'',
          \<lparr>attributeType = Some ''bool'', minValue = None, maxValue = None,
           defaultValue = Some 1, keyable = True\<rparr>)]
      else [])"
  by (simp add: added_attrs_def base_calls_def)

lemma added_attrs_visualizer: "added_attrs visualizer_calls n = []"
  by (simp add: added_attrs_def visualizer_calls_def)

lemma nodes_base:
  "scene_nodes (base_calls nm ca) =
     [\<lparr>ntype = ''transform'', nname = Some (''C_'' @ nm @ ''_GRP''), nparent = None\<rparr>,
      \<lparr>ntype = ''transform'', nname = Some (''C_'' @ nm @ ''_NRB''), nparent = Some 0\<rparr>,
      \<lparr>ntype = ''nurbsSurface'', nname = None, nparent = Some 1\<rparr>,
      \<lparr>ntype = ''closestPointOnSurface'', nname = None, nparent = None\<rparr>,
      \<lparr>ntype = ''multDoubleLinear'', nname = None, nparent = None\<rparr>,
      \<lparr>ntype = ''ramp'', nname = None, nparent = None\<rparr>,
      \<lparr>ntype = ''remapValue'', nname = Some ''coneAngle'', nparent = None\<rparr>,
      \<lparr>ntype = ''reverse'', nname = Some ''coneAngle'', nparent = None\<rparr>,
      \<lparr>ntype = ''transform'', nname = Some (''C_'' @ nm @ ''Driver_LOC''),
        nparent = Some 0\<rparr>,
      \<lparr>ntype = ''locator'', nname = Some (''C_'' @ nm @ ''Driver_LOCShape''),
        nparent = Some 8\<rparr>,
      \<lparr>ntype = ''transform'', nname = Some (''C_'' @ nm @ ''Pose_LOC''),
        nparent = Some 8\<rparr>,
      \<lparr>ntype = ''locator'', nname = Some (''C_'' @ nm @ ''Pose_LOCShape''),
        nparent = Some 10\<rparr>,
      \<lparr>ntype = ''decomposeMatrix'', nname = None, nparent = None\<rparr>]"
  by (simp add: scene_nodes_def base_calls_def)

lemma nodes_visualizer:
  "scene_nodes (base_calls nm ca @ visualizer_calls) =
     scene_nodes (base_calls nm ca) @
     [\<lparr>ntype = ''surfaceShader'', nname = Some ''visualize'', nparent = None\<rparr>,
      \<lparr>ntype = ''renderSet'', nname = Some ''visualize'', nparent = None\<rparr>,
      \<lparr>ntype = ''ramp'', nname = Some ''visualize'', nparent = None\<rparr>,
      \<lparr>ntype = ''remapValue'', nname = Some ''visualize'', nparent = None\<rparr>]"
  by (simp add: scene_nodes_def visualizer_calls_def)

lemma connections_built:
  "connections (built nm ca vis) =
     connections (base_calls nm ca) @ (if vis then connections visualizer_calls else [])"
  by (cases vis) (simp_all add: built_eq connections_append)

lemma assignments_built:
  "assignments (built nm ca vis) =
     assignments (base_calls nm ca) @ (if vis then assignments visualizer_calls else [])"
  by (cases vis) (simp_all add: built_eq assignments_append)

lemma added_attrs_built: "added_attrs (built nm ca vis) n = added_attrs (base_calls nm ca) n"
  by (cases vis) (simp_all add: built_eq added_attrs_append added_attrs_visualizer)

lemma nodes_built:
  "scene_nodes (built nm ca vis) =
     scene_nodes (base_calls nm ca) @
     (if vis then
        [\<lparr>ntype = ''surfaceShader'', nname = Some ''visualize'', nparent = None\<rparr>,
         \<lparr>ntype = ''renderSet'', nname = Some ''visualize'', nparent = None\<rparr>,
         \<lparr>ntype = ''ramp'', nname = Some ''visualize'', nparent = None\<rparr>,
         \<lparr>ntype = ''remapValue'', nname = Some ''visualize'', nparent = None\<rparr>]
      else [])"
  by (cases vis) (simp_all add: built_eq nodes_visualizer)

lemmas built_views = connections_built assignments_built added_attrs_built nodes_built
  connections_base connections_visualizer assignments_base assignments_visualizer
  added_attrs_base nodes_base

lemma node_type_built:
  "node_type (built nm ca vis) 4 = Some ''multDoubleLinear''"
  "node_type (built nm ca vis) 5 = Some ''ramp''"
  "node_type (built nm ca vis) 6 = Some ''remapValue''"
  "node_type (built nm ca vis) 7 = Some ''reverse''"
  "node_type (built nm ca vis) 0 = Some ''transform''"
  "node_type (built nm ca vis) 3 = Some ''closestPointOnSurface''"
  by ((cases vis; simp add: node_type_def built_views nth_append)+)

lemma sources_of_built:
  "sources_of (built nm ca vis) (Plug 5 ''colorEntryList[0].position'') = [Plug 6 ''outValue'']"
  "sources_of (built nm ca vis) (Plug 5 ''colorEntryList[3].position'') = [Plug 7 ''outputX'']"
  "sources_of (built nm ca vis) (Plug 5 ''colorEntryList[1].position'') = []"
  "sources_of (built nm ca vis) (Plug 5 ''colorEntryList[2].position'') = []"
  "sources_of (built nm ca vis) (Plug 5 ''uCoord'') = [Plug 4 ''output'']"
  "sources_of (built nm ca vis) (Plug 4 ''output'') = []"
  "sources_of (built nm ca vis) (Plug 4 ''input1'') = [Plug 3 ''parameterU'']"
  "sources_of (built nm ca vis) (Plug 4 ''input2'') = []"
  "sources_of (built nm ca vis) (Plug 3 ''parameterU'') = []"
  "sources_of (built nm ca vis) (Plug 6 ''outValue'') = []"
  "sources_of (built nm ca vis) (Plug 6 ''inputValue'') = [Plug 0 ''coneAngle'']"
  "sources_of (built nm ca vis) (Plug 6 ''inputMin'') = []"
  "sources_of (built nm ca vis) (Plug 6 ''inputMax'') = []"
  "sources_of (built nm ca vis) (Plug 6 ''outputMin'') = []"
  "sources_of (built nm ca vis) (Plug 6 ''outputMax'') = []"
  "sources_of (built nm ca vis) (Plug 7 ''outputX'') = []"
  "sources_of (built nm ca vis) (Plug 7 ''inputX'') = [Plug 6 ''outValue'']"
  "sources_of (built nm ca vis) (Plug 0 ''coneAngle'') = []"
  "sources_of (built nm ca vis) (Plug 0 ''outValue'') = [Plug 5 ''outColorR'']"
  by ((cases vis; simp add: sources_of_def built_views)+)

lemma assigned_built:
  "assigned (built nm ca vis) (Plug 4 ''input2'') = [([1 / 4], ViaPymel)]"
  "assigned (built nm ca vis) (Plug 6 ''inputMin'') = [([0], ViaPymel)]"
  "assigned (built nm ca vis) (Plug 6 ''inputMax'') = [([180], ViaPymel)]"
  "assigned (built nm ca vis) (Plug 6 ''outputMin'') = [([1], ViaPymel)]"
  "assigned (built nm ca vis) (Plug 6 ''outputMax'') = [([1 / 2], ViaPymel)]"
  "assigned (built nm ca vis) (Plug 3 ''parameterU'') = []"
  "assigned (built nm ca vis) (Plug 0 ''coneAngle'') = []"
  "assigned (built nm ca vis) (Plug 0 ''outValue'') = []"
  "assigned (built nm ca vis) (Plug 5 ''colorEntryList[0].position'') = []"
  "assigned (built nm ca vis) (Plug 5 ''colorEntryList[1].position'') = [([1], ViaPymel)]"
  "assigned (built nm ca vis) (Plug 5 ''colorEntryList[2].position'') = [([0], ViaPymel)]"
  "assigned (built nm ca vis) (Plug 5 ''colorEntryList[3].position'') = []"
  "assigned (built nm ca vis) (Plug 5 ''colorEntryList[0].color'') = [([0, 0, 0], ViaPymel)]"
  "assigned (built nm ca vis) (Plug 5 ''colorEntryList[1].color'') = [([1, 1, 1], ViaPymel)]"
  "assigned (built nm ca vis) (Plug 5 ''colorEntryList[2].color'') = [([- 1, - 1, - 1], ViaCmds)]"
  "assigned (built nm ca vis) (Plug 5 ''colorEntryList[3].color'') = [([0, 0, 0], ViaPymel)]"
  by ((cases vis; simp add: assigned_def built_views)+)

lemma assignments_on_built:
  "assignments_on (built nm ca vis) 4 = [(''input2'', [1 / 4], ViaPymel)]"
  "assignments_on (built nm ca vis) 5 =
     [(''type'', [1], ViaPymel),
      (''colorEntryList[0].color'', [0, 0, 0], ViaPymel),
      (''colorEntryList[1].position'', [1], ViaPymel),
      (''colorEntryList[1].color'', [1, 1, 1], ViaPymel),
      (''colorEntryList[2].position'', [0], ViaPymel),
      (''colorEntryList[2].color'', [- 1, - 1, - 1], ViaCmds),
      (''colorEntryList[3].color'', [0, 0, 0], ViaPymel)]"
  "assignments_on (built nm ca vis) 6 =
     [(''inputMin'', [0], ViaPymel), (''inputMax'', [180], ViaPymel),
      (''outputMin'', [1], ViaPymel), (''outputMax'', [1 / 2], ViaPymel)]"
  "assignments_on (built nm ca vis) 7 = []"
  "assignments_on (built nm ca vis) 10 = [(''tx'', [1], ViaPymel)]"
  "assignments_on (built nm ca vis) 0 = []"
  by ((cases vis; simp add: assignments_on_def built_views)+)

lemma connections_into_built:
  "connections_into (built nm ca vis) 0 = [(Plug 5 ''outColorR'', Plug 0 ''outValue'')]"
  "connections_into (built nm ca vis) 4 = [(Plug 3 ''parameterU'', Plug 4 ''input1'')]"
  "connections_into (built nm ca vis) 5 =
     [(Plug 4 ''output'', Plug 5 ''uCoord''),
      (Plug 6 ''outValue'', Plug 5 ''colorEntryList[0].position''),
      (Plug 7 ''outputX'', Plug 5 ''colorEntryList[3].position'')]"
  "connections_into (built nm ca vis) 6 = [(Plug 0 ''coneAngle'', Plug 6 ''inputValue'')]"
  "connections_into (built nm ca vis) 7 = [(Plug 6 ''outValue'', Plug 7 ''inputX'')]"
  "connections_into (built nm ca vis) 10 = []"
  by ((cases vis; simp add: connections_into_def plug_node_def built_views)+)

lemma stop_attr_simps:
  "stop_attr 0 f = ''colorEntryList[0].'' @ f"
  "stop_attr 1 f = ''colorEntryList[1].'' @ f"
  "stop_attr (Suc 0) f = ''colorEntryList[1].'' @ f"
  "stop_attr 2 f = ''colorEntryList[2].'' @ f"
  "stop_attr 3 f = ''colorEntryList[3].'' @ f"
  by (simp_all add: stop_attr_def)

subsection \<open>Values on the built graph\<close>

lemma set_value_built:
  "set_value (built nm ca vis) (Plug 4 ''input2'') = Some (1 / 4)"
  "set_value (built nm ca vis) (Plug 6 ''inputMin'') = Some 0"
  "set_value (built nm ca vis) (Plug 6 ''inputMax'') = Some 180"
  "set_value (built nm ca vis) (Plug 6 ''outputMin'') = Some 1"
  "set_value (built nm ca vis) (Plug 6 ''outputMax'') = Some (1 / 2)"
  "set_value (built nm ca vis) (Plug 3 ''parameterU'') = None"
  "set_value (built nm ca vis) (Plug 0 ''coneAngle'') = None"
  by (simp_all add: set_value_def assigned_built)

lemma default_of_built:
  "default_of (built nm ca vis) (Plug 0 ''coneAngle'') = Some ca"
  "default_of (built nm ca vis) (Plug 3 ''parameterU'') = None"
  by ((cases vis; simp add: default_of_def built_views)+)

lemma value_remap_inputs:
  "plug_value (Suc (Suc fuel)) (built nm ca vis) ext (Plug 6 ''inputValue'') = Some ca"
  "plug_value (Suc fuel) (built nm ca vis) ext (Plug 6 ''inputMin'') = Some 0"
  "plug_value (Suc fuel) (built nm ca vis) ext (Plug 6 ''inputMax'') = Some 180"
  "plug_value (Suc fuel) (built nm ca vis) ext (Plug 6 ''outputMin'') = Some 1"
  "plug_value (Suc fuel) (built nm ca vis) ext (Plug 6 ''outputMax'') = Some (1 / 2)"
  by (simp_all add: sources_of_built node_type_built set_value_built default_of_built)

lemma value_remap:
  "plug_value (Suc (Suc (Suc fuel))) (built nm ca vis) ext (Plug 6 ''outValue'') =
     Some (1 - ca / 360)"
proof -
  have "plug_value (Suc (Suc (Suc fuel))) (built nm ca vis) ext (Plug 6 ''outValue'') =
          remap ca 0 180 1 (1 / 2)"
    by (simp add: plug_value.simps(2) [of "Suc (Suc fuel)"] sources_of_built node_type_built
                  value_remap_inputs del: plug_value.simps)
  then show ?thesis by (simp add: remap_def)
qed

lemma value_stop0:
  "plug_value (fuel + 6) (built nm ca vis) ext (Plug 5 ''colorEntryList[0].position'') =
     Some (1 - ca / 360)"
proof -
  have f: "fuel + 6 = Suc (Suc (Suc (Suc (Suc (Suc fuel)))))" by simp
  show ?thesis
    by (simp add: f plug_value.simps(2) [of "Suc (Suc (Suc (Suc (Suc fuel))))"]
                  sources_of_built value_remap del: plug_value.simps)
qed

lemma value_stop3:
  "plug_value (fuel + 6) (built nm ca vis) ext (Plug 5 ''colorEntryList[3].position'') =
     Some (ca / 360)"
proof -
  have f: "fuel + 6 = Suc (Suc (Suc (Suc (Suc (Suc fuel)))))" by simp
  have "plug_value (Suc (Suc (Suc (Suc fuel)))) (built nm ca vis) ext (Plug 7 ''inputX'') =
          Some (1 - ca / 360)"
    by (simp add: plug_value.simps(2) [of "Suc (Suc (Suc fuel))"] sources_of_built value_remap
             del: plug_value.simps)
  then have "plug_value (Suc (Suc (Suc (Suc (Suc fuel))))) (built nm ca vis) ext
               (Plug 7 ''outputX'') = Some (ca / 360)"
    by (simp add: plug_value.simps(2) [of "Suc (Suc (Suc (Suc fuel)))"] sources_of_built
                  node_type_built del: plug_value.simps)
  then show ?thesis
    by (simp add: f plug_value.simps(2) [of "Suc (Suc (Suc (Suc (Suc fuel))))"]
                  sources_of_built del: plug_value.simps)
qed

lemma value_uCoord:
  "plug_value (fuel + 4) (built nm ca vis)
     (\<lambda>p. if p = Plug 3 ''parameterU'' then Some u else None) (Plug 5 ''uCoord'') =
   Some (u * (1 / 4))"
proof -
  let ?ext = "\<lambda>p. if p = Plug 3 ''parameterU'' then Some u else None"
  have f: "fuel + 4 = Suc (Suc (Suc (Suc fuel)))" by simp
  have a: "plug_value (Suc (Suc fuel)) (built nm ca vis) ?ext (Plug 4 ''input1'') = Some u"
    by (simp add: sources_of_built node_type_built set_value_built default_of_built)
  have b: "plug_value (Suc (Suc fuel)) (built nm ca vis) ?ext (Plug 4 ''input2'') = Some (1 / 4)"
    by (simp add: sources_of_built node_type_built set_value_built default_of_built)
  have "plug_value (Suc (Suc (Suc fuel))) (built nm ca vis) ?ext (Plug 4 ''output'') =
          Some (u * (1 / 4))"
    by (simp add: plug_value.simps(2) [of "Suc (Suc fuel)"] sources_of_built node_type_built
                  a b del: plug_value.simps)
  then show ?thesis
    by (simp add: f plug_value.simps(2) [of "Suc (Suc (Suc fuel))"] sources_of_built
             del: plug_value.simps)
qed

section \<open>No program over the host catches\<close>

lemma in_accepting_simps:
  "trace (in_accepting s) = trace s" "raised (in_accepting s) = raised s"
  "host_fails (in_accepting s) = accepting"
  "in_accepting (s\<lparr>trace := tr\<rparr>) = (in_accepting s)\<lparr>trace := tr\<rparr>"
  "in_accepting (in_accepting s) = in_accepting s"
  by (simp_all add: in_accepting_def)

lemma never_catches_host_call:
  assumes "\<And>s. ret (in_accepting s) = ret s"
  shows "never_catches (host_call c ret)"
  unfolding never_catches_def host_call_def
  by (auto simp: in_accepting_simps assms accepting_def split: option.splits)

lemma never_catches_return: "never_catches (State_Monad.return a)"
  unfolding never_catches_def
  by (auto simp: in_accepting_simps split: option.splits)

lemma never_catches_py_raise: "never_catches (py_raise e a)"
  unfolding never_catches_def py_raise_def
  by (auto simp: in_accepting_simps in_accepting_def split: option.splits)

lemma never_catches_bind:
  assumes m: "never_catches m" and f: "\<And>a. never_catches (f a)"
  shows "never_catches (State_Monad.bind m f)"
  unfolding never_catches_def
proof (intro allI)
  fix s
  obtain a s1 where r1: "run_state m s = (a, s1)" by (cases "run_state m s")
  obtain a' s2 where r2: "run_state (f a) s1 = (a', s2)" by (cases "run_state (f a) s1")
  obtain b t1 where q1: "run_state m (in_accepting s) = (b, t1)" by (cases "run_state m (in_accepting s)")
  obtain b' t2 where q2: "run_state (f b) t1 = (b', t2)" by (cases "run_state (f b) t1")
  from m r1 have M: "host_fails s1 = host_fails s" "prefix (trace s) (trace s1)"
      "raised s \<noteq> None \<longrightarrow> s1 = s"
    unfolding never_catches_def by (auto dest!: spec[where x=s])
  from f[of a] r2 have F: "host_fails s2 = host_fails s1" "prefix (trace s1) (trace s2)"
      "raised s1 \<noteq> None \<longrightarrow> s2 = s1"
    unfolding never_catches_def by (auto dest!: spec[where x=s1])
  from f[of b] q2 have G: "host_fails t2 = host_fails t1" "prefix (trace t1) (trace t2)"
      "raised t1 \<noteq> None \<longrightarrow> t2 = t1"
    unfolding never_catches_def by (auto dest!: spec[where x=t1])
  show "case run_state (State_Monad.bind m f) s of (a, s') \<Rightarrow>
            host_fails s' = host_fails s \<and>
            prefix (trace s) (trace s') \<and>
            (raised s \<noteq> None \<longrightarrow> s' = s) \<and>
            (raised s = None \<longrightarrow>
               (case run_state (State_Monad.bind m f) (in_accepting s) of (b, t) \<Rightarrow>
                  (case raised s' of
                     None \<Rightarrow> a = b \<and> t = in_accepting s'
                   | Some e \<Rightarrow>
                      (raised t = Some e \<and> trace t = trace s') \<or>
                      (\<exists>c. prefix (trace s' @ [c]) (trace t) \<and>
                           host_fails s (trace s') c = Some e))))"
  proof (simp add: r1 r2 q1 q2, intro conjI impI)
    show "host_fails s2 = host_fails s" using M F by simp
    show "prefix (trace s) (trace s2)" using M F by (meson prefix_order.trans)
    show "s2 = s" if "\<exists>y. raised s = Some y" using that M F by auto
    show "case raised s2 of None \<Rightarrow> a' = b' \<and> t2 = in_accepting s2
      | Some e \<Rightarrow> raised t2 = Some e \<and> trace t2 = trace s2 \<or>
          (\<exists>c. prefix (trace s2 @ [c]) (trace t2) \<and> host_fails s (trace s2) c = Some e)"
      if n: "raised s = None"
    proof -
      from m r1 q1 n have M2: "case raised s1 of
                     None \<Rightarrow> a = b \<and> t1 = in_accepting s1
                   | Some e \<Rightarrow>
                      (raised t1 = Some e \<and> trace t1 = trace s1) \<or>
                      (\<exists>c. prefix (trace s1 @ [c]) (trace t1) \<and>
                           host_fails s (trace s1) c = Some e)"
        unfolding never_catches_def by (auto dest!: spec[where x=s])
      show ?thesis
      proof (cases "raised s1")
        case None
        with M2 have ab: "a = b" "t1 = in_accepting s1" by auto
        from f[of a] r2 q2 None ab have "case raised s2 of
                     None \<Rightarrow> a' = b' \<and> t2 = in_accepting s2
                   | Some e \<Rightarrow>
                      (raised t2 = Some e \<and> trace t2 = trace s2) \<or>
                      (\<exists>c. prefix (trace s2 @ [c]) (trace t2) \<and>
                           host_fails s1 (trace s2) c = Some e)"
          unfolding never_catches_def by (auto dest!: spec[where x=s1])
        then show ?thesis using M(1) by (auto split: option.splits)
      next
        case (Some e)
        with F have s2: "s2 = s1" by simp
        from M2 Some have "(raised t1 = Some e \<and> trace t1 = trace s1) \<or>
                      (\<exists>c. prefix (trace s1 @ [c]) (trace t1) \<and>
                           host_fails s (trace s1) c = Some e)" by simp
        then show ?thesis
        proof
          assume A: "raised t1 = Some e \<and> trace t1 = trace s1"
          with G have "t2 = t1" by simp
          with A s2 Some show ?thesis by simp
        next
          assume "\<exists>c. prefix (trace s1 @ [c]) (trace t1) \<and> host_fails s (trace s1) c = Some e"
          then obtain c where c: "prefix (trace s1 @ [c]) (trace t1)" "host_fails s (trace s1) c = Some e" by blast
          with G have "prefix (trace s1 @ [c]) (trace t2)" by (meson prefix_order.trans)
          with c s2 Some show ?thesis by auto
        qed
      qed
    qed
  qed
qed

lemma never_catches_deref: "never_catches (deref v)"
  unfolding deref_def by (cases v) (simp_all add: never_catches_return never_catches_py_raise)

lemma never_catches_prims:
  "never_catches (pm_createNode t n p)"
  "never_catches (addAttr x a sp)"
  "never_catches (pm_sphere ch nm)"
  "never_catches (pm_parent x y)"
  "never_catches (connect src dst)"
  "never_catches (setAttr x a vs)"
  "never_catches (cmds_setAttr x a vs ty)"
  "never_catches (pm_shadingNode t b nm)"
  "never_catches (pm_sets b1 b2 b3 nm)"
  "never_catches (getShape x)"
  "never_catches (pm_defaultNavigation x dst b)"
  unfolding pm_createNode_def addAttr_def pm_sphere_def pm_parent_def connect_def setAttr_def
    cmds_setAttr_def pm_shadingNode_def pm_sets_def getShape_def pm_defaultNavigation_def
  by (rule never_catches_host_call, simp add: new_node_def no_value_def in_accepting_def)+

lemmas never_catches_intros = never_catches_bind never_catches_prims never_catches_deref
  never_catches_return

lemma never_catches_basic_setup: "never_catches (basic_setup self)"
  unfolding basic_setup_def Let_def by (intro never_catches_intros)

lemma never_catches_target_setup: "never_catches (target_setup self)"
  unfolding target_setup_def Let_def by (intro never_catches_intros)

lemma never_catches_visualizer_setup: "never_catches (visualizer_setup self)"
  unfolding visualizer_setup_def Let_def by (intro never_catches_intros)

lemma never_catches_reader_setup: "never_catches (reader_setup self)"
  unfolding reader_setup_def
  by (intro never_catches_bind never_catches_basic_setup never_catches_target_setup)
     (simp add: never_catches_visualizer_setup never_catches_return)

lemma never_catches_UVBasedPoseReader: "never_catches (UVBasedPoseReader nm ca vis)"
  unfolding UVBasedPoseReader_def by (rule never_catches_reader_setup)

section \<open>The claims\<close>

text \<open>
  \<^bold>\<open>C1.\<close> In \<^verbatim>\<open>_basic_setup\<close> the node 6 is a remap node whose range attributes are
  set to input 0..180 and output 1..0.5, fed by the info node's \<^verbatim>\<open>coneAngle\<close>, and
  wired into the position of ramp stop 0; the node 7 is a reverse node fed by the
  remap's output and wired into the position of ramp stop 3. With the host's evaluation
  of these nodes, a cone angle of 180 puts both driven positions at 0.5, a cone angle
  of 0 puts them at 1 and 0 (and 90 at 0.75 and 0.25), for any name, with or without
  visualizer, and for any fuel of at least 6.
\<close>

theorem cone_angle_remap_drives_boundaries:
  "node_type (built nm ca vis) 6 = Some ''remapValue'' \<and>
   node_type (built nm ca vis) 7 = Some ''reverse'' \<and>
   assignments_on (built nm ca vis) 6 =
     [(''inputMin'', [0], ViaPymel), (''inputMax'', [180], ViaPymel),
      (''outputMin'', [1], ViaPymel), (''outputMax'', [0.5], ViaPymel)] \<and>
   connections_into (built nm ca vis) 6 = [(Plug 0 ''coneAngle'', Plug 6 ''inputValue'')] \<and>
   sources_of (built nm ca vis) (Plug 5 (stop_attr 0 ''position'')) = [Plug 6 ''outValue''] \<and>
   connections_into (built nm ca vis) 7 = [(Plug 6 ''outValue'', Plug 7 ''inputX'')] \<and>
   sources_of (built nm ca vis) (Plug 5 (stop_attr 3 ''position'')) = [Plug 7 ''outputX''] \<and>
   plug_value (fuel + 6) (built nm 180 vis) ext (Plug 5 (stop_attr 0 ''position'')) = Some 0.5 \<and>
   plug_value (fuel + 6) (built nm 180 vis) ext (Plug 5 (stop_attr 3 ''position'')) = Some 0.5 \<and>
   plug_value (fuel + 6) (built nm 0 vis) ext (Plug 5 (stop_attr 0 ''position'')) = Some 1 \<and>
   plug_value (fuel + 6) (built nm 0 vis) ext (Plug 5 (stop_attr 3 ''position'')) = Some 0 \<and>
   plug_value (fuel + 6) (built nm 90 vis) ext (Plug 5 (stop_attr 0 ''position'')) = Some 0.75 \<and>
   plug_value (fuel + 6) (built nm 90 vis) ext (Plug 5 (stop_attr 3 ''position'')) = Some 0.25"
  by (simp add: node_type_built assignments_on_built connections_into_built sources_of_built
                stop_attr_simps value_stop0 value_stop3)

text \<open>
  \<^bold>\<open>C2.\<close> After a build the core ramp's \<^verbatim>\<open>outColorR\<close> is connected to the info node's
  \<^verbatim>\<open>outValue\<close>, and that is the only connection into the info node: \<^verbatim>\<open>outValue\<close> is
  driven and the builder never sets it, while \<^verbatim>\<open>coneAngle\<close> has no incoming connection
  and is a keyable attribute.
\<close>

theorem outValue_driven_by_ramp:
  "info_node (fst (build nm ca vis)) = Some 0 \<and>
   ramp (fst (build nm ca vis)) = Some 5 \<and>
   node_type (built nm ca vis) 5 = Some ''ramp'' \<and>
   connections_into (built nm ca vis) 0 = [(Plug 5 ''outColorR'', Plug 0 ''outValue'')] \<and>
   driven (built nm ca vis) (Plug 0 ''outValue'') \<and>
   assigned (built nm ca vis) (Plug 0 ''outValue'') = [] \<and>
   \<not> driven (built nm ca vis) (Plug 0 ''coneAngle'') \<and>
   map (\<lambda>x. (fst x, keyable (snd x))) (added_attrs (built nm ca vis) 0) =
     [(''outValue'', True), (''coneAngle'', True), (''visualize'', True)]"
  by (cases vis)
     (simp_all add: build_reader node_type_built connections_into_built assigned_built
                    driven_def built_views)

text \<open>
  \<^bold>\<open>C3.\<close> For every build the info node (node 0, the transform \<^verbatim>\<open>C_<name>_GRP\<close>) gets
  exactly three added attributes: \<^verbatim>\<open>outValue\<close> with bounds \<open>-1\<close> and 1, \<^verbatim>\<open>coneAngle\<close>
  with bounds 0 and 180 and the constructor's \<^verbatim>\<open>cone_angle\<close> as default, both of the
  host's default (numeric) attribute type since no type is passed, and \<^verbatim>\<open>visualize\<close> of
  type \<^verbatim>\<open>bool\<close> with default 1, that is true.
\<close>

theorem info_node_attributes:
  "info_node (fst (build nm ca vis)) = Some 0 \<and>
   scene_nodes (built nm ca vis) ! 0 =
     \<lparr>ntype = ''transform'', nname = Some (''C_'' @ nm @ ''_GRP''), nparent = None\<rparr> \<and>
   added_attrs (built nm ca vis) 0 =
     [(''outValue'',
       \<lparr>attributeType = None, minValue = Some (- 1), maxValue = Some 1,
        defaultValue = None, keyable = True\<rparr>),
      (''coneAngle'',
       \<lparr>attributeType = None, minValue = Some 0, maxValue = Some 180,
        defaultValue = Some ca, keyable = True\<rparr>),
      (''visualize'',
       \<lparr>attributeType = Some ''bool'', minValue = None, maxValue = None,
        defaultValue = Some 1, keyable = True\<rparr>)]"
  by (simp add: build_reader built_views)

text \<open>
  \<^bold>\<open>C4.\<close> The core ramp (node 5) gets exactly four stops, 0 to 3: the builder's
  assignments on the ramp and the connections into it touch no other entry. In the order
  the claim lists them, the stops are stop 2, set to position 0; stop 0, whose position
  is driven by the remap; stop 1, set to position 1; and stop 3, whose position is driven
  by the reverse of the remap. Their colours in that order are \<open>(-1, -1, -1)\<close>, black,
  white, black, which by magnitude alternate white and black. The only assignment with a
  negative value is the colour of stop 2, and it is the only one made through
  \<^verbatim>\<open>maya.cmds.setAttr\<close>; every other one goes through the node's \<^verbatim>\<open>setAttr\<close>.
\<close>

theorem core_ramp_stops:
  "node_type (built nm ca vis) 5 = Some ''ramp'' \<and>
   assignments_on (built nm ca vis) 5 =
     [(''type'', [1], ViaPymel),
      (stop_attr 0 ''color'', black, ViaPymel),
      (stop_attr 1 ''position'', [1], ViaPymel),
      (stop_attr 1 ''color'', white, ViaPymel),
      (stop_attr 2 ''position'', [0], ViaPymel),
      (stop_attr 2 ''color'', [- 1, - 1, - 1], ViaCmds),
      (stop_attr 3 ''color'', black, ViaPymel)] \<and>
   connections_into (built nm ca vis) 5 =
     [(Plug 4 ''output'', Plug 5 ''uCoord''),
      (Plug 6 ''outValue'', Plug 5 (stop_attr 0 ''position'')),
      (Plug 7 ''outputX'', Plug 5 (stop_attr 3 ''position''))] \<and>
   map (\<lambda>i. assigned (built nm ca vis) (Plug 5 (stop_attr i ''position''))) [2, 0, 1, 3] =
     [[([0], ViaPymel)], [], [([1], ViaPymel)], []] \<and>
   map (\<lambda>i. sources_of (built nm ca vis) (Plug 5 (stop_attr i ''position''))) [2, 0, 1, 3] =
     [[], [Plug 6 ''outValue''], [], [Plug 7 ''outputX'']] \<and>
   map (stop_colors (built nm ca vis) 5) [0, 1, 2, 3] =
     [[black], [white], [[- 1, - 1, - 1]], [black]] \<and>
   map magnitude (concat (map (stop_colors (built nm ca vis) 5) [2, 0, 1, 3])) =
     [white, black, white, black] \<and>
   alternating_white_black
     (map magnitude (concat (map (stop_colors (built nm ca vis) 5) [2, 0, 1, 3]))) \<and>
   filter (\<lambda>x. negative (fst (snd x))) (assignments_on (built nm ca vis) 5) =
     [(stop_attr 2 ''color'', [- 1, - 1, - 1], ViaCmds)] \<and>
   filter (\<lambda>x. snd (snd x) = ViaCmds) (assignments_on (built nm ca vis) 5) =
     [(stop_attr 2 ''color'', [- 1, - 1, - 1], ViaCmds)]"
  by (simp add: node_type_built assignments_on_built connections_into_built stop_colors_def
                stop_attr_simps assigned_built sources_of_built white_def black_def
                negative_def magnitude_def)

text \<open>
  \<^bold>\<open>C5.\<close> Node 4 is a multiplier whose \<^verbatim>\<open>input2\<close> is set to 0.25 and whose \<^verbatim>\<open>input1\<close>
  is connected to \<^verbatim>\<open>parameterU\<close> of the closest-point sampler (node 3); its output is
  the source of the ramp's \<^verbatim>\<open>uCoord\<close>. When the sampler yields \<open>u\<close>, the ramp samples at
  \<open>u * 0.25\<close>.
\<close>

theorem sampling_chain:
  "point_on_surface (fst (build nm ca vis)) = Some 3 \<and>
   node_type (built nm ca vis) 3 = Some ''closestPointOnSurface'' \<and>
   node_type (built nm ca vis) 4 = Some ''multDoubleLinear'' \<and>
   assignments_on (built nm ca vis) 4 = [(''input2'', [0.25], ViaPymel)] \<and>
   connections_into (built nm ca vis) 4 = [(Plug 3 ''parameterU'', Plug 4 ''input1'')] \<and>
   sources_of (built nm ca vis) (Plug 5 ''uCoord'') = [Plug 4 ''output''] \<and>
   plug_value (fuel + 4) (built nm ca vis)
     (\<lambda>p. if p = Plug 3 ''parameterU'' then Some u else None) (Plug 5 ''uCoord'') =
     Some (u * 0.25)"
  using value_uCoord [of fuel nm ca vis u]
  by (simp add: build_reader node_type_built assignments_on_built connections_into_built
                sources_of_built)

text \<open>
  \<^bold>\<open>C6\<close>, as stated, fails: the positions of stops 1 and 2 of the core ramp are not
  connected to anything; the builder sets them to 1 and 0 with the ordinary \<^verbatim>\<open>setAttr\<close>.
\<close>

theorem inner_stop_positions_are_set_not_driven:
  "\<not> driven (built ''UVBasedPoseReader'' 180 True) (Plug 5 (stop_attr 1 ''position'')) \<and>
   assigned (built ''UVBasedPoseReader'' 180 True) (Plug 5 (stop_attr 1 ''position'')) =
     [([1], ViaPymel)] \<and>
   \<not> driven (built ''UVBasedPoseReader'' 180 True) (Plug 5 (stop_attr 2 ''position'')) \<and>
   assigned (built ''UVBasedPoseReader'' 180 True) (Plug 5 (stop_attr 2 ''position'')) =
     [([0], ViaPymel)]"
  by (simp add: driven_def stop_attr_simps assigned_built built_views)

text \<open>
  \<^bold>\<open>C6\<close>, amended. For every build the positions of the two boundary stops of the core
  ramp, 0 and 3, are driven by the cone-angle chain (stop 0 by the remap, stop 3 by the
  reverse of the remap, the remap by the info node's \<^verbatim>\<open>coneAngle\<close>) and are never set
  by the builder; the positions of stops 1 and 2 are not driven and are set to 1 and 0.
\<close>

theorem boundary_stop_positions_driven:
  "driven (built nm ca vis) (Plug 5 (stop_attr 0 ''position'')) \<and>
   driven (built nm ca vis) (Plug 5 (stop_attr 3 ''position'')) \<and>
   sources_of (built nm ca vis) (Plug 5 (stop_attr 0 ''position'')) = [Plug 6 ''outValue''] \<and>
   sources_of (built nm ca vis) (Plug 5 (stop_attr 3 ''position'')) = [Plug 7 ''outputX''] \<and>
   sources_of (built nm ca vis) (Plug 7 ''inputX'') = [Plug 6 ''outValue''] \<and>
   sources_of (built nm ca vis) (Plug 6 ''inputValue'') = [Plug 0 ''coneAngle''] \<and>
   assigned (built nm ca vis) (Plug 5 (stop_attr 0 ''position'')) = [] \<and>
   assigned (built nm ca vis) (Plug 5 (stop_attr 3 ''position'')) = [] \<and>
   \<not> driven (built nm ca vis) (Plug 5 (stop_attr 1 ''position'')) \<and>
   \<not> driven (built nm ca vis) (Plug 5 (stop_attr 2 ''position'')) \<and>
   assigned (built nm ca vis) (Plug 5 (stop_attr 1 ''position'')) = [([1], ViaPymel)] \<and>
   assigned (built nm ca vis) (Plug 5 (stop_attr 2 ''position'')) = [([0], ViaPymel)]"
  by (cases vis)
     (simp_all add: driven_def stop_attr_simps assigned_built sources_of_built built_views)

text \<open>
  \<^bold>\<open>C7.\<close> For every name, cone angle and visualizer flag, the driver (node 8) is a
  transform under the info node, the pose (node 10) is a transform under the driver,
  and the only assignment on the pose is \<^verbatim>\<open>tx = 1\<close>; nothing is connected into the pose.
\<close>

theorem pose_offset_is_one:
  "info_node (fst (build nm ca vis)) = Some 0 \<and>
   driver (fst (build nm ca vis)) = Some 8 \<and>
   pose (fst (build nm ca vis)) = Some 10 \<and>
   scene_nodes (built nm ca vis) ! 8 =
     \<lparr>ntype = ''transform'', nname = Some (''C_'' @ nm @ ''Driver_LOC''),
      nparent = Some 0\<rparr> \<and>
   scene_nodes (built nm ca vis) ! 10 =
     \<lparr>ntype = ''transform'', nname = Some (''C_'' @ nm @ ''Pose_LOC''),
      nparent = Some 8\<rparr> \<and>
   assignments_on (built nm ca vis) 10 = [(''tx'', [1], ViaPymel)] \<and>
   connections_into (built nm ca vis) 10 = []"
  by (simp add: build_reader assignments_on_built connections_into_built built_views
                nth_append)

text \<open>
  \<^bold>\<open>C8.\<close> Without the visualizer the scene has no surface shader and no render set, and
  its only ramp is the unnamed core ramp. The calls of a build with the visualizer are
  those of the build without it followed by the visualizer's calls, and its nodes are
  the same thirteen nodes followed by the shader, the set, the second ramp and the
  second remap.
\<close>

theorem no_visualizer_nodes_without_flag:
  "filter (\<lambda>n. ntype n = ''surfaceShader'' \<or> ntype n = ''renderSet'')
     (scene_nodes (built nm ca False)) = [] \<and>
   map nname (filter (\<lambda>n. ntype n = ''ramp'') (scene_nodes (built nm ca False))) = [None] \<and>
   length (scene_nodes (built nm ca False)) = 13 \<and>
   built nm ca True = built nm ca False @ visualizer_calls \<and>
   scene_nodes (built nm ca True) =
     scene_nodes (built nm ca False) @
     [\<lparr>ntype = ''surfaceShader'', nname = Some ''visualize'', nparent = None\<rparr>,
      \<lparr>ntype = ''renderSet'', nname = Some ''visualize'', nparent = None\<rparr>,
      \<lparr>ntype = ''ramp'', nname = Some ''visualize'', nparent = None\<rparr>,
      \<lparr>ntype = ''remapValue'', nname = Some ''visualize'', nparent = None\<rparr>]"
proof -
  have "built nm ca True = built nm ca False @ visualizer_calls"
    by (simp add: built_eq)
  moreover have "scene_nodes (built nm ca True) =
     scene_nodes (built nm ca False) @
     [\<lparr>ntype = ''surfaceShader'', nname = Some ''visualize'', nparent = None\<rparr>,
      \<lparr>ntype = ''renderSet'', nname = Some ''visualize'', nparent = None\<rparr>,
      \<lparr>ntype = ''ramp'', nname = Some ''visualize'', nparent = None\<rparr>,
      \<lparr>ntype = ''remapValue'', nname = Some ''visualize'', nparent = None\<rparr>]"
    by (simp add: nodes_built)
  moreover have "filter (\<lambda>n. ntype n = ''surfaceShader'' \<or> ntype n = ''renderSet'')
     (scene_nodes (built nm ca False)) = []"
    by (simp add: nodes_built nodes_base)
  moreover have
    "map nname (filter (\<lambda>n. ntype n = ''ramp'') (scene_nodes (built nm ca False))) = [None]"
    by (simp add: nodes_built nodes_base)
  moreover have "length (scene_nodes (built nm ca False)) = 13"
    by (simp add: nodes_built nodes_base)
  ultimately show ?thesis by blast
qed

text \<open>
  \<^bold>\<open>C9.\<close> Whatever the host rejects, the build ends in one of two ways. Either nothing
  was raised and the scene holds exactly the calls of a build in an accepting host; or
  the scene holds a prefix of those calls, unchanged, and the exception that reaches the
  caller is the very error the host returned for the next call of that build: the error
  is not replaced, nothing accepted before it is undone, and nothing after it is done.
\<close>

theorem no_error_handling_no_rollback:
  "(case raised (snd (build_in h nm ca vis)) of
      None \<Rightarrow> trace (snd (build_in h nm ca vis)) = built nm ca vis
    | Some e \<Rightarrow>
        (\<exists>c. prefix (trace (snd (build_in h nm ca vis)) @ [c]) (built nm ca vis) \<and>
             h (trace (snd (build_in h nm ca vis))) c = Some e))"
proof -
  let ?m = "UVBasedPoseReader (Some nm) (Some ca) (Some vis)"
  obtain a s' where r: "run_state ?m (empty_scene h) = (a, s')"
    by (cases "run_state ?m (empty_scene h)")
  obtain b t where q: "run_state ?m (empty_scene accepting) = (b, t)"
    by (cases "run_state ?m (empty_scene accepting)")
  have acc: "in_accepting (empty_scene h) = empty_scene accepting"
    by (simp add: in_accepting_def empty_scene_def)
  have t: "trace t = built nm ca vis" "raised t = None"
    using q build_raised [of nm ca vis] by (simp_all add: built_def build_def)
  have "never_catches ?m" by (rule never_catches_UVBasedPoseReader)
  then have "case raised s' of
               None \<Rightarrow> a = b \<and> t = in_accepting s'
             | Some e \<Rightarrow>
                 (raised t = Some e \<and> trace t = trace s') \<or>
                 (\<exists>c. prefix (trace s' @ [c]) (trace t) \<and>
                      host_fails (empty_scene h) (trace s') c = Some e)"
    unfolding never_catches_def using r q acc
    by (auto dest!: spec [where x = "empty_scene h"] simp: empty_scene_def)
  then show ?thesis
    using t r by (auto simp: build_in_def empty_scene_def in_accepting_def split: option.splits)
qed

text \<open>
  \<^bold>\<open>C9\<close>, an instance: a host that rejects the creation of the reverse node, whose requested
  name \<^verbatim>\<open>coneAngle\<close> the remap node already carries. The build raises that error and
  the scene keeps the 28 calls made before it.
\<close>

theorem no_error_handling_no_rollback_witness:
  "raised (snd (build_in
       (\<lambda>tr c. if c = CreateNode ''reverse'' (Some ''coneAngle'') None
                then Some (HostError ''name clash'') else None) ''R'' 90 False)) =
     Some (HostError ''name clash'') \<and>
   trace (snd (build_in
       (\<lambda>tr c. if c = CreateNode ''reverse'' (Some ''coneAngle'') None
                then Some (HostError ''name clash'') else None) ''R'' 90 False)) =
     take 28 (built ''R'' 90 False) \<and>
   prefix (take 28 (built ''R'' 90 False) @ [CreateNode ''reverse'' (Some ''coneAngle'') None])
     (built ''R'' 90 False)"
proof -
  let ?h = "\<lambda>tr c. if c = CreateNode ''reverse'' (Some ''coneAngle'') None
                    then Some (HostError ''name clash'') else None"
  have run: "snd (build_in ?h ''R'' 90 False) =
      \<lparr>trace = take 28 (base_calls ''R'' 90), raised = Some (HostError ''name clash''),
       host_fails = ?h\<rparr>"
    unfolding build_in_def
    by (simp add: UVBasedPoseReader_def reader_setup_def basic_setup_def target_setup_def
          pm_createNode_def addAttr_def pm_sphere_def pm_parent_def connect_def setAttr_def
          cmds_setAttr_def deref_def host_call_def py_raise_def new_node_def no_value_def
          empty_scene_def scene_nodes_def base_calls_def Let_def)
  have pre: "prefix
      (take 28 (base_calls ''R'' 90) @ [CreateNode ''reverse'' (Some ''coneAngle'') None])
      (base_calls ''R'' 90)"
    by (simp add: base_calls_def)
  show ?thesis
    using no_error_handling_no_rollback [of ?h "''R''" 90 False] run pre
    by (simp add: built_eq)
qed

text \<open>
  \<^bold>\<open>C10.\<close> The constructor is the setup run on the freshly initialised object, so
  constructing builds. The module's last statement calls the constructor without
  arguments: the name is \<^verbatim>\<open>UVBasedPoseReader\<close>, the cone angle 180 and the visualizer
  on. Importing the module into an empty scene of an accepting host leaves the complete
  rig of 17 nodes there, visualizer included, and raises nothing.
\<close>

theorem import_builds_default_rig:
  "UVBasedPoseReader (Some nm) (Some ca) (Some vis) =
     reader_setup
       \<lparr>name = nm, cone_angle = ca, with_visualizer = vis, info_node = None,
        nurbs_sphere = None, point_on_surface = None, ramp = None, driver = None,
        pose = None, sphere = None\<rparr> \<and>
   run_state module_import (empty_scene h) = build_in h ''UVBasedPoseReader'' 180 True \<and>
   run_state module_import (empty_scene accepting) = build ''UVBasedPoseReader'' 180 True \<and>
   trace (snd (run_state module_import (empty_scene accepting))) =
     base_calls ''UVBasedPoseReader'' 180 @ visualizer_calls \<and>
   raised (snd (run_state module_import (empty_scene accepting))) = None \<and>
   length (scene_nodes (trace (snd (run_state module_import (empty_scene accepting))))) = 17"
proof -
  have "run_state module_import (empty_scene accepting) = build ''UVBasedPoseReader'' 180 True"
    by (simp add: module_import_def build_def UVBasedPoseReader_def)
  then show ?thesis
    by (simp add: build_True nodes_visualizer nodes_base)
       (simp add: module_import_def build_in_def UVBasedPoseReader_def)
qed

end
